theory Spec2Isabelle
  imports Main "HOL-Library.AList"
begin

section \<open>Data model of the resolved principal\<close>

text \<open>
  The principal attached to a request is the pydantic object
  \<open>GetUserInfoWithRelationDetail\<close> (\<open>app/admin/schema/user.py\<close>): a user with its roles,
  each role with its menus and data scopes. Only the fields read by
  \<open>common/security/rbac.py\<close> and \<open>common/security/permission.py\<close> are kept.
  \<open>StatusType\<close> is the integer enumeration of \<open>common/enums.py\<close>.
\<close>

datatype StatusType = disable | enable

text \<open>Truth value of a \<open>StatusType\<close> member, an \<open>IntEnum\<close>: non-zero is true.\<close>

fun status_truthy :: "StatusType \<Rightarrow> bool" where
  "status_truthy disable = False"
| "status_truthy enable = True"

record GetMenuDetail =
  menu_id :: int
  perms :: "string option"
  menu_status :: StatusType

record GetDataScopeDetail =
  scope_id :: int
  scope_status :: StatusType

record GetRoleWithRelationDetail =
  role_id :: int
  role_status :: StatusType
  is_filter_scopes :: bool
  menus :: "GetMenuDetail list"
  scopes :: "GetDataScopeDetail list"

record GetUserInfoWithRelationDetail =
  user_id :: int
  is_superuser :: bool
  is_staff :: bool
  roles :: "GetRoleWithRelationDetail list"

section \<open>Settings, requests and errors\<close>

text \<open>
  The fields of \<open>core/conf.py\<close> that the two security modules read. A compiled path
  pattern is kept as the predicate \<open>pattern.match(path)\<close>. \<open>DATA_PERMISSION_MODELS\<close> is
  a dictionary from entity name to module path, kept as an association list.
\<close>

record Settings =
  TOKEN_REQUEST_PATH_EXCLUDE :: "string list"
  TOKEN_REQUEST_PATH_EXCLUDE_PATTERN :: "(string \<Rightarrow> bool) list"
  RBAC_ROLE_MENU_MODE :: bool
  RBAC_ROLE_MENU_EXCLUDE :: "string list"
  DATA_PERMISSION_MODELS :: "(string \<times> string) list"
  DATA_PERMISSION_COLUMN_EXCLUDE :: "string list"

text \<open>
  The request as \<open>rbac_verify\<close> and \<open>filter_data_permission\<close> read it:
  \<open>request.url.path\<close>, \<open>request.auth.scopes\<close>, \<open>request.user\<close>, \<open>request.method\<close> and
  \<open>getattr(request.state, 'permission', None)\<close>.
\<close>

record Request =
  url_path :: string
  auth_scopes :: "string list"
  user :: GetUserInfoWithRelationDetail
  request_method :: string
  state_permission :: "string option"

text \<open>The exceptions of \<open>common/exception/errors.py\<close> that the two modules raise, with
  their messages. \<open>AttributeError\<close>, \<open>ValueError\<close> and \<open>TypeError\<close> are Python's own: an
  attribute read on \<open>None\<close>, an unpacking of too few values or an empty module name, and a
  relative module name without a package.\<close>

datatype error =
    TokenError
  | AuthorizationError string
  | NotFoundError string
  | ServerError string
  | AttributeError
  | ValueError
  | TypeError

text \<open>The members of \<open>MethodType\<close> that \<open>rbac_verify\<close> compares with.\<close>

definition MethodType_GET :: string where
  "MethodType_GET = ''GET''"

definition MethodType_OPTIONS :: string where
  "MethodType_OPTIONS = ''OPTIONS''"

section \<open>Menu authorization: \<open>rbac_verify\<close>\<close>

text \<open>
  \<open>all(status == 0 for status in user_roles)\<close> compares each element of \<open>user_roles\<close>,
  a role object, with the integer \<open>0\<close>. A pydantic model is equal only to another model,
  so the comparison is false for every role and every integer.
\<close>

definition role_eq_int :: "GetRoleWithRelationDetail \<Rightarrow> int \<Rightarrow> bool" where
  "role_eq_int role n = False"

text \<open>Python's \<open>str.split(sep)\<close> for a one-character separator: \<open>n\<close> separators give
  \<open>n + 1\<close> pieces, empty pieces included.\<close>

fun str_split :: "char \<Rightarrow> string \<Rightarrow> string list" where
  "str_split sep [] = [[]]"
| "str_split sep (c # cs) =
     (if c = sep then [] # str_split sep cs
      else (case str_split sep cs of
              [] \<Rightarrow> [[c]]
            | w # ws \<Rightarrow> (c # w) # ws))"

text \<open>
  \<open>unique_menus[menu.id] = menu\<close> over every menu of every role: a dictionary keeps the
  position of a key's first insertion and the value of its last.
\<close>

definition unique_menus :: "GetRoleWithRelationDetail list \<Rightarrow> (int \<times> GetMenuDetail) list" where
  "unique_menus user_roles =
     foldl (\<lambda>d role. foldl (\<lambda>d menu. AList.update (menu_id menu) menu d) d (menus role))
       [] user_roles"

text \<open>The codes one menu adds to \<open>allow_perms\<close>: \<open>menu.perms\<close> must be a non-empty string and
  the menu enabled.\<close>

definition menu_perms :: "GetMenuDetail \<Rightarrow> string list" where
  "menu_perms menu =
     (case perms menu of
        None \<Rightarrow> []
      | Some p \<Rightarrow> if p \<noteq> [] \<and> menu_status menu = enable then str_split CHR '','' p else [])"

definition allow_perms :: "GetRoleWithRelationDetail list \<Rightarrow> string list" where
  "allow_perms user_roles = concat (map (\<lambda>kv. menu_perms (snd kv)) (unique_menus user_roles))"

text \<open>
  \<open>rbac_verify\<close> returns \<open>None\<close> (the request is allowed, \<open>Inr ()\<close>) or raises (\<open>Inl\<close>).
  The casbin plugin is not part of the repository's sources: \<open>casbin\<close> is \<open>None\<close> when its
  import fails and otherwise the verdict of \<open>casbin_verify\<close> on the request.
\<close>

definition rbac_verify ::
    "Settings \<Rightarrow> (Request \<Rightarrow> error + unit) option \<Rightarrow> Request \<Rightarrow> error + unit" where
  "rbac_verify settings casbin request =
     (let path = url_path request in
      if path \<in> set (TOKEN_REQUEST_PATH_EXCLUDE settings) then Inr ()
      else if list_ex (\<lambda>pattern. pattern path) (TOKEN_REQUEST_PATH_EXCLUDE_PATTERN settings)
        then Inr ()
      else if auth_scopes request = [] then Inl TokenError
      else if is_superuser (user request) then Inr ()
      else
        let user_roles = roles (user request) in
        if user_roles = [] \<or> list_all (\<lambda>status. role_eq_int status 0) user_roles
          then Inl (AuthorizationError
            ''User has not assigned a role, please contact the system administrator'')
        else if \<not> list_ex (\<lambda>role. length (menus role) > 0) user_roles
          then Inl (AuthorizationError
            ''User has not assigned a menu, please contact the system administrator'')
        else if (request_method request \<noteq> MethodType_GET \<or> request_method request \<noteq> MethodType_OPTIONS)
                \<and> \<not> is_staff (user request)
          then Inl (AuthorizationError
            ''The user has been banned from background management operations, please contact the system administrator'')
        else if RBAC_ROLE_MENU_MODE settings then
          (case state_permission request of
             None \<Rightarrow> Inr ()
           | Some path_auth_perm \<Rightarrow>
               if path_auth_perm = [] then Inr ()
               else if path_auth_perm \<in> set (RBAC_ROLE_MENU_EXCLUDE settings) then Inr ()
               else if path_auth_perm \<notin> set (allow_perms user_roles)
                 then Inl (AuthorizationError ''Permission Denied'')
               else Inr ())
        else
          (case casbin of
             None \<Rightarrow> Inl (ServerError
               ''Permission verification failed, please contact the system administrator'')
           | Some casbin_verify \<Rightarrow> casbin_verify request))"

section \<open>Row filtering: \<open>filter_data_permission\<close>\<close>

text \<open>
  A row of \<open>sys_data_rule\<close> (\<open>app/admin/model/data_rule.py\<close>). \<open>operator\<close> and
  \<open>expression\<close> are integer columns; \<open>value\<close> is a string column.
\<close>

record DataRule =
  rule_id :: int
  rule_model :: string
  rule_column :: string
  rule_operator :: int
  rule_expression :: int
  rule_value :: string

text \<open>The values of \<open>RoleDataRuleOperatorType\<close> and \<open>RoleDataRuleExpressionType\<close>
  (\<open>common/enums.py\<close>).\<close>

definition RoleDataRuleOperatorType_AND :: int where "RoleDataRuleOperatorType_AND = 0"
definition RoleDataRuleOperatorType_OR :: int where "RoleDataRuleOperatorType_OR = 1"

definition RoleDataRuleExpressionType_eq :: int where "RoleDataRuleExpressionType_eq = 0"
definition RoleDataRuleExpressionType_ne :: int where "RoleDataRuleExpressionType_ne = 1"
definition RoleDataRuleExpressionType_gt :: int where "RoleDataRuleExpressionType_gt = 2"
definition RoleDataRuleExpressionType_ge :: int where "RoleDataRuleExpressionType_ge = 3"
definition RoleDataRuleExpressionType_lt :: int where "RoleDataRuleExpressionType_lt = 4"
definition RoleDataRuleExpressionType_le :: int where "RoleDataRuleExpressionType_le = 5"
definition RoleDataRuleExpressionType_in :: int where "RoleDataRuleExpressionType_in = 6"
definition RoleDataRuleExpressionType_not_in :: int where "RoleDataRuleExpressionType_not_in = 7"

text \<open>
  The SQL expressions the function builds. \<open>Column m c\<close> is \<open>getattr(model_ins, c)\<close> for
  the class imported from module path \<open>m\<close>; \<open>TrueLiteral\<close> is Python's \<open>1 == 1\<close>;
  \<open>And\<close> and \<open>Or\<close> are \<open>and_(*xs)\<close> and \<open>or_(*xs)\<close>.
\<close>

datatype Column = Column string string

datatype Comparison = Eq | Ne | Gt | Ge | Lt | Le

datatype ColumnElement =
    TrueLiteral
  | Compare Comparison Column string
  | InList Column "string list"
  | NotInList Column "string list"
  | And "ColumnElement list"
  | Or "ColumnElement list"

text \<open>What an expression says of a row, given the truth of each comparison on that row.\<close>

fun holds :: "(ColumnElement \<Rightarrow> bool) \<Rightarrow> ColumnElement \<Rightarrow> bool" where
  "holds row TrueLiteral = True"
| "holds row (And es) = list_all (holds row) es"
| "holds row (Or es) = list_ex (holds row) es"
| "holds row e = row e"

text \<open>
  What lies outside the two modules: the order in which CPython iterates over the set
  \<open>data_scope_ids\<close> (given the elements in insertion order), the query
  \<open>data_scope_dao.get_with_relation\<close> (the rules of a scope, \<open>None\<close> when the scope has
  no row), and Python's import system (the keys of \<open>__table__.columns\<close> of the class at a
  module path, \<open>None\<close> when the import or the attribute lookup fails). A column key is
  taken to be an attribute of its class, as it is for the models of the repository, so
  that \<open>getattr(model_ins, column)\<close> succeeds once the column has passed the test.
\<close>

record Backend =
  set_to_list :: "int list \<Rightarrow> int list"
  get_with_relation :: "int \<Rightarrow> DataRule list option"
  import_module :: "string \<Rightarrow> string list option"

text \<open>\<open>dynamic_import_data_model\<close> (\<open>utils/import_parse.py\<close>). The handler catches
  \<open>ImportError\<close> and \<open>AttributeError\<close> only. The unpacking of \<open>rsplit('.', 1)\<close> raises
  \<open>ValueError\<close> on a path without a dot. On a path that begins with a dot the module name
  is empty when that dot is the only one, and \<open>importlib.import_module\<close> raises
  \<open>ValueError\<close>; otherwise the module name is relative, and it raises \<open>TypeError\<close>.\<close>

definition dynamic_import_data_model ::
    "(string \<Rightarrow> string list option) \<Rightarrow> string \<Rightarrow> error + string list" where
  "dynamic_import_data_model importer module_path =
     (if CHR ''.'' \<notin> set module_path then Inl ValueError
      else if hd module_path = CHR ''.'' then
        (if CHR ''.'' \<notin> set (tl module_path) then Inl ValueError else Inl TypeError)
      else (case importer module_path of
              None \<Rightarrow> Inl (ServerError
                ''Dynamic analysis of data model column failed, please contact the system super administrator'')
            | Some model_ins \<Rightarrow> Inr model_ins))"

text \<open>The first loops: the ids of the enabled scopes of every role, as a set.\<close>

definition data_scope_ids :: "GetUserInfoWithRelationDetail \<Rightarrow> int list" where
  "data_scope_ids u =
     foldl (\<lambda>ids role.
              foldl (\<lambda>ids scope.
                       if status_truthy (scope_status scope)
                       then List.insert (scope_id scope) ids else ids)
                ids (scopes role))
       [] (roles u)"

text \<open>\<open>unique_data_rules[rule.id] = rule\<close> over the rules of every scope; a scope without
  a row makes \<open>data_scope_with_relation.rules\<close> an attribute read on \<open>None\<close>.\<close>

fun unique_data_rules ::
    "(int \<Rightarrow> DataRule list option) \<Rightarrow> (int \<times> DataRule) list \<Rightarrow> int list
      \<Rightarrow> error + (int \<times> DataRule) list" where
  "unique_data_rules gwr d [] = Inr d"
| "unique_data_rules gwr d (data_scope_id # ids) =
     (case gwr data_scope_id of
        None \<Rightarrow> Inl AttributeError
      | Some rules \<Rightarrow>
          unique_data_rules gwr
            (foldl (\<lambda>d rule. AList.update (rule_id rule) rule d) d rules) ids)"

text \<open>The \<open>match rule_expression\<close> statement; \<open>None\<close> when no case matches. \<open>value\<close> is
  always a string, so the \<open>in\<close> cases always split it.\<close>

definition rule_condition :: "Column \<Rightarrow> DataRule \<Rightarrow> ColumnElement option" where
  "rule_condition column_obj data_rule =
     (let rule_expression = rule_expression data_rule; v = rule_value data_rule in
      if rule_expression = RoleDataRuleExpressionType_eq then Some (Compare Eq column_obj v)
      else if rule_expression = RoleDataRuleExpressionType_ne then Some (Compare Ne column_obj v)
      else if rule_expression = RoleDataRuleExpressionType_gt then Some (Compare Gt column_obj v)
      else if rule_expression = RoleDataRuleExpressionType_ge then Some (Compare Ge column_obj v)
      else if rule_expression = RoleDataRuleExpressionType_lt then Some (Compare Lt column_obj v)
      else if rule_expression = RoleDataRuleExpressionType_le then Some (Compare Le column_obj v)
      else if rule_expression = RoleDataRuleExpressionType_in
        then Some (InList column_obj (str_split CHR '','' v))
      else if rule_expression = RoleDataRuleExpressionType_not_in
        then Some (NotInList column_obj (str_split CHR '','' v))
      else None)"

text \<open>The \<open>match data_rule.operator\<close> statement on the two lists.\<close>

definition add_condition ::
    "int \<Rightarrow> ColumnElement \<Rightarrow> ColumnElement list \<times> ColumnElement list
      \<Rightarrow> ColumnElement list \<times> ColumnElement list" where
  "add_condition operator condition buckets =
     (if operator = RoleDataRuleOperatorType_AND then (fst buckets @ [condition], snd buckets)
      else if operator = RoleDataRuleOperatorType_OR then (fst buckets, snd buckets @ [condition])
      else buckets)"

text \<open>The loop over \<open>data_rule_list\<close>, with \<open>(where_and_list, where_or_list)\<close> as its
  state.\<close>

fun where_lists ::
    "Settings \<Rightarrow> (string \<Rightarrow> string list option)
      \<Rightarrow> ColumnElement list \<times> ColumnElement list \<Rightarrow> DataRule list
      \<Rightarrow> error + ColumnElement list \<times> ColumnElement list" where
  "where_lists settings importer buckets [] = Inr buckets"
| "where_lists settings importer buckets (data_rule # rest) =
     (case map_of (DATA_PERMISSION_MODELS settings) (rule_model data_rule) of
        None \<Rightarrow> Inl (NotFoundError ''Data rule model does not exist'')
      | Some module_path \<Rightarrow>
          (case dynamic_import_data_model importer module_path of
             Inl e \<Rightarrow> Inl e
           | Inr keys \<Rightarrow>
               let model_columns =
                     filter (\<lambda>key. key \<notin> set (DATA_PERMISSION_COLUMN_EXCLUDE settings)) keys;
                   column = rule_column data_rule
               in
               if column \<notin> set model_columns
                 then Inl (NotFoundError ''Data rule model column does not exist'')
               else
                 (case rule_condition (Column module_path column) data_rule of
                    None \<Rightarrow> where_lists settings importer buckets rest
                  | Some condition \<Rightarrow>
                      where_lists settings importer
                        (add_condition (rule_operator data_rule) condition buckets) rest)))"

text \<open>The last lines: \<open>or_(*where_list) if where_list else or_(1 == 1)\<close>.\<close>

definition combine_where :: "ColumnElement list \<Rightarrow> ColumnElement list \<Rightarrow> ColumnElement" where
  "combine_where where_and_list where_or_list =
     (let where_list =
            (if where_and_list \<noteq> [] then [And where_and_list] else []) @
            (if where_or_list \<noteq> [] then [Or where_or_list] else [])
      in if where_list \<noteq> [] then Or where_list else Or [TrueLiteral])"

text \<open>The function itself: a predicate (\<open>Inr\<close>) or the exception raised (\<open>Inl\<close>).\<close>

definition filter_data_permission ::
    "Settings \<Rightarrow> Backend \<Rightarrow> Request \<Rightarrow> error + ColumnElement" where
  "filter_data_permission settings backend request =
     (if is_superuser (user request) then Inr (Or [TrueLiteral])
      else if list_ex (\<lambda>role. \<not> is_filter_scopes role) (roles (user request))
        then Inr (Or [TrueLiteral])
      else
        let ids = set_to_list backend (data_scope_ids (user request)) in
        if ids = [] then Inr (Or [TrueLiteral])
        else
          (case unique_data_rules (get_with_relation backend) [] ids of
             Inl e \<Rightarrow> Inl e
           | Inr unique \<Rightarrow>
               (case where_lists settings (import_module backend) ([], []) (map snd unique) of
                  Inl e \<Rightarrow> Inl e
                | Inr buckets \<Rightarrow> Inr (combine_where (fst buckets) (snd buckets)))))"

section \<open>Cache of user snapshots and the mutations of rules and scopes\<close>

text \<open>
  The tables the mutations touch (\<open>app/admin/model/m2m.py\<close>): the rules, the ids of the
  scopes, and the association tables scope-rule, role-scope and user-role, each row a
  pair in the order of the table's columns. The redis store is kept for the per-user keys
  \<open>f'{settings.JWT_USER_REDIS_PREFIX}:{user.id}'\<close> only, indexed by the user id.
\<close>

record Database =
  sys_data_rule :: "DataRule list"
  sys_data_scope :: "int list"
  sys_data_scope_rule :: "(int \<times> int) list"
  sys_role_data_scope :: "(int \<times> int) list"
  sys_user_role :: "(int \<times> int) list"

record System =
  database :: Database
  redis :: "int \<Rightarrow> string option"

text \<open>The users that hold a role that holds the scope, and the users that reach a rule
  through a scope that contains it.\<close>

definition users_of_scope :: "Database \<Rightarrow> int \<Rightarrow> int list" where
  "users_of_scope db data_scope_id =
     concat (map (\<lambda>rs. if snd rs = data_scope_id
                         then map fst (filter (\<lambda>ur. snd ur = fst rs) (sys_user_role db))
                         else [])
               (sys_role_data_scope db))"

definition users_of_rule :: "Database \<Rightarrow> int \<Rightarrow> int list" where
  "users_of_rule db data_rule_id =
     concat (map (\<lambda>sr. if snd sr = data_rule_id then users_of_scope db (fst sr) else [])
               (sys_data_scope_rule db))"

text \<open>\<open>data_rule_dao.delete\<close>: the rows whose id is in \<open>pks\<close> are deleted, and with them
  (\<open>ondelete='CASCADE'\<close>) their rows of the scope-rule table; the result is the row count.\<close>

definition data_rule_dao_delete :: "Database \<Rightarrow> int list \<Rightarrow> int \<times> Database" where
  "data_rule_dao_delete db pks =
     (int (length (filter (\<lambda>rule. rule_id rule \<in> set pks) (sys_data_rule db))),
      db\<lparr> sys_data_rule := filter (\<lambda>rule. rule_id rule \<notin> set pks) (sys_data_rule db),
          sys_data_scope_rule := filter (\<lambda>sr. snd sr \<notin> set pks) (sys_data_scope_rule db) \<rparr>)"

text \<open>\<open>DataRuleService.delete\<close>: the body of the transaction is the call of the dao.\<close>

definition DataRuleService_delete :: "int list \<Rightarrow> System \<Rightarrow> int \<times> System" where
  "DataRuleService_delete pks sys =
     (let (count, db) = data_rule_dao_delete (database sys) pks
      in (count, sys\<lparr> database := db \<rparr>))"

text \<open>\<open>data_scope_dao.update_rules\<close>: the scope's rules become the rules whose id is in
  \<open>rule_ids.rules\<close>; a scope without a row makes the assignment an attribute write on
  \<open>None\<close>.\<close>

definition data_scope_dao_update_rules ::
    "Database \<Rightarrow> int \<Rightarrow> int list \<Rightarrow> error + int \<times> Database" where
  "data_scope_dao_update_rules db pk rule_ids =
     (if pk \<notin> set (sys_data_scope db) then Inl AttributeError
      else
        let rules = filter (\<lambda>rule. rule_id rule \<in> set rule_ids) (sys_data_rule db) in
        Inr (int (length rules),
             db\<lparr> sys_data_scope_rule :=
                   filter (\<lambda>sr. fst sr \<noteq> pk) (sys_data_scope_rule db) @
                   map (\<lambda>rule. (pk, rule_id rule)) rules \<rparr>))"

text \<open>\<open>DataScopeService.update_data_scope_rule\<close>: again only the call of the dao; an
  exception leaves the transaction, and the system, as it was.\<close>

definition DataScopeService_update_data_scope_rule ::
    "int \<Rightarrow> int list \<Rightarrow> System \<Rightarrow> error + int \<times> System" where
  "DataScopeService_update_data_scope_rule pk rule_ids sys =
     (case data_scope_dao_update_rules (database sys) pk rule_ids of
        Inl e \<Rightarrow> Inl e
      | Inr (count, db) \<Rightarrow> Inr (count, sys\<lparr> database := db \<rparr>))"

text \<open>\<open>data_scope_dao.get_with_relation\<close> on these tables: the scope's row with its rules
  loaded through the scope-rule table, \<open>None\<close> when the scope has no row. The rules are
  taken in the order of the rows of the scope-rule table.\<close>

definition data_scope_dao_get_with_relation :: "Database \<Rightarrow> int \<Rightarrow> DataRule list option" where
  "data_scope_dao_get_with_relation db pk =
     (if pk \<notin> set (sys_data_scope db) then None
      else Some (concat (map (\<lambda>sr. if fst sr = pk
                                      then filter (\<lambda>rule. rule_id rule = snd sr) (sys_data_rule db)
                                      else [])
                          (sys_data_scope_rule db))))"

section \<open>The repository's configuration and example inputs\<close>

text \<open>The values of \<open>core/conf.py\<close>. The path pattern
  \<open>^/api/v1/monitors/(redis|server)$\<close> matches the two paths, and each of them followed by
  one newline.\<close>

definition default_settings :: Settings where
  "default_settings =
     \<lparr> TOKEN_REQUEST_PATH_EXCLUDE = [''/api/v1/auth/login''],
       TOKEN_REQUEST_PATH_EXCLUDE_PATTERN =
         [\<lambda>path. path \<in> set [''/api/v1/monitors/redis'', ''/api/v1/monitors/server'',
                                ''/api/v1/monitors/redis'' @ [CHR 0x0A],
                                ''/api/v1/monitors/server'' @ [CHR 0x0A]]],
       RBAC_ROLE_MENU_MODE = True,
       RBAC_ROLE_MENU_EXCLUDE = [''sys:monitor:redis'', ''sys:monitor:server''],
       DATA_PERMISSION_MODELS = [(''department'', ''backend.app.admin.model.Dept'')],
       DATA_PERMISSION_COLUMN_EXCLUDE =
         [''id'', ''sort'', ''del_flag'', ''created_time'', ''updated_time''] \<rparr>"

text \<open>The import system of the repository: the columns of \<open>Dept\<close>
  (\<open>app/admin/model/dept.py\<close>, with the two of \<open>DateTimeMixin\<close>).\<close>

definition repository_modules :: "string \<Rightarrow> string list option" where
  "repository_modules module_path =
     (if module_path = ''backend.app.admin.model.Dept''
      then Some [''id'', ''name'', ''sort'', ''leader'', ''phone'', ''email'', ''status'',
                 ''del_flag'', ''parent_id'', ''created_time'', ''updated_time'']
      else None)"

text \<open>Principals and requests of the examples: an enabled role that can list users, a
  disabled role that can add and edit them, roles that carry data scopes, and two roles
  that do not filter, one enabled and one disabled.\<close>

definition menu_user_list :: GetMenuDetail where
  "menu_user_list = \<lparr> menu_id = 1, perms = Some ''sys:user:list'', menu_status = enable \<rparr>"

definition menu_user_add :: GetMenuDetail where
  "menu_user_add =
     \<lparr> menu_id = 2, perms = Some ''sys:user:add,sys:user:edit'', menu_status = enable \<rparr>"

definition role_viewer :: GetRoleWithRelationDetail where
  "role_viewer = \<lparr> role_id = 1, role_status = enable, is_filter_scopes = True,
                    menus = [menu_user_list], scopes = [] \<rparr>"

definition role_editor_disabled :: GetRoleWithRelationDetail where
  "role_editor_disabled = \<lparr> role_id = 2, role_status = disable, is_filter_scopes = True,
                             menus = [menu_user_add], scopes = [] \<rparr>"

definition role_scoped :: "int \<Rightarrow> int list \<Rightarrow> GetRoleWithRelationDetail" where
  "role_scoped i scope_ids =
     \<lparr> role_id = i, role_status = enable, is_filter_scopes = True, menus = [menu_user_list],
       scopes = map (\<lambda>s. \<lparr> scope_id = s, scope_status = enable \<rparr>) scope_ids \<rparr>"

definition role_unfiltered :: GetRoleWithRelationDetail where
  "role_unfiltered = \<lparr> role_id = 8, role_status = enable, is_filter_scopes = False,
                        menus = [menu_user_list], scopes = [] \<rparr>"

definition role_unfiltered_disabled :: GetRoleWithRelationDetail where
  "role_unfiltered_disabled = \<lparr> role_id = 9, role_status = disable, is_filter_scopes = False,
                                 menus = [], scopes = [] \<rparr>"

definition principal ::
    "bool \<Rightarrow> bool \<Rightarrow> GetRoleWithRelationDetail list \<Rightarrow> GetUserInfoWithRelationDetail" where
  "principal superuser staff user_roles =
     \<lparr> user_id = 7, is_superuser = superuser, is_staff = staff, roles = user_roles \<rparr>"

definition request_of ::
    "GetUserInfoWithRelationDetail \<Rightarrow> string \<Rightarrow> string option \<Rightarrow> Request" where
  "request_of u m permission =
     \<lparr> url_path = ''/api/v1/sys/users'', auth_scopes = [''authenticated''],
       user = u, request_method = m, state_permission = permission \<rparr>"

text \<open>Rules and stores of the examples. The examples use the scope ids 1 and 2 only, which
  come out of a CPython set in increasing order, hence \<open>sort\<close>; for larger ids the order
  of a set is not the increasing one, and the properties below take it as a parameter.\<close>

definition rule_of :: "int \<Rightarrow> string \<Rightarrow> string \<Rightarrow> int \<Rightarrow> int \<Rightarrow> string \<Rightarrow> DataRule" where
  "rule_of i model column operator expression v =
     \<lparr> rule_id = i, rule_model = model, rule_column = column, rule_operator = operator,
       rule_expression = expression, rule_value = v \<rparr>"

definition backend_of ::
    "(int \<times> DataRule list) list \<Rightarrow> (string \<Rightarrow> string list option) \<Rightarrow> Backend" where
  "backend_of scope_rules importer =
     \<lparr> set_to_list = sort, get_with_relation = map_of scope_rules, import_module = importer \<rparr>"

text \<open>A configuration with an entity that has the columns \<open>dept\<close> and \<open>owner\<close>.\<close>

definition ticket_settings :: Settings where
  "ticket_settings =
     default_settings\<lparr> DATA_PERMISSION_MODELS := [(''ticket'', ''backend.app.desk.model.Ticket'')] \<rparr>"

definition ticket_modules :: "string \<Rightarrow> string list option" where
  "ticket_modules module_path =
     (if module_path = ''backend.app.desk.model.Ticket''
      then Some [''id'', ''dept'', ''owner'', ''status'', ''del_flag'', ''created_time'',
                 ''updated_time'']
      else None)"

text \<open>A store in which rule 1 belongs to scope 1, role 1 holds scope 1, user 7 holds role 1
  and user 8 holds no role; both users have a cached snapshot.\<close>

definition example_system :: System where
  "example_system =
     \<lparr> database =
         \<lparr> sys_data_rule = [rule_of 1 ''department'' ''status'' 0 0 ''1'',
                             rule_of 2 ''department'' ''name'' 0 0 ''hq''],
           sys_data_scope = [1],
           sys_data_scope_rule = [(1, 1)],
           sys_role_data_scope = [(1, 1)],
           sys_user_role = [(7, 1)] \<rparr>,
       redis = [7 \<mapsto> ''snapshot of 7'', 8 \<mapsto> ''snapshot of 8''] \<rparr>"

section \<open>Notions used to state the properties\<close>

text \<open>A rule resolves when its entity is in the allow-list, the entity's class is
  imported, and its column is among the class's columns outside the exclusion list.\<close>

definition rule_resolves ::
    "Settings \<Rightarrow> (string \<Rightarrow> string list option) \<Rightarrow> DataRule \<Rightarrow> bool" where
  "rule_resolves settings importer data_rule =
     (case map_of (DATA_PERMISSION_MODELS settings) (rule_model data_rule) of
        None \<Rightarrow> False
      | Some module_path \<Rightarrow>
          (case dynamic_import_data_model importer module_path of
             Inl e \<Rightarrow> False
           | Inr keys \<Rightarrow>
               rule_column data_rule \<in>
                 set (filter (\<lambda>key. key \<notin> set (DATA_PERMISSION_COLUMN_EXCLUDE settings)) keys)))"

text \<open>A rule is unresolvable when its entity is not in the allow-list, or its column is not
  among the columns of the imported class outside the exclusion list.\<close>

definition rule_unresolvable ::
    "Settings \<Rightarrow> (string \<Rightarrow> string list option) \<Rightarrow> DataRule \<Rightarrow> bool" where
  "rule_unresolvable settings importer data_rule =
     (case map_of (DATA_PERMISSION_MODELS settings) (rule_model data_rule) of
        None \<Rightarrow> True
      | Some module_path \<Rightarrow>
          (case dynamic_import_data_model importer module_path of
             Inl e \<Rightarrow> False
           | Inr keys \<Rightarrow>
               rule_column data_rule \<notin>
                 set (filter (\<lambda>key. key \<notin> set (DATA_PERMISSION_COLUMN_EXCLUDE settings)) keys)))"

text \<open>Every class of the allow-list is imported.\<close>

definition models_import :: "Settings \<Rightarrow> (string \<Rightarrow> string list option) \<Rightarrow> bool" where
  "models_import settings importer =
     list_all (\<lambda>entry. \<not> isl (dynamic_import_data_model importer (snd entry)))
       (DATA_PERMISSION_MODELS settings)"

text \<open>The comparison operator of a rule is none of the eight of
  \<open>RoleDataRuleExpressionType\<close>.\<close>

definition unknown_expression :: "DataRule \<Rightarrow> bool" where
  "unknown_expression data_rule =
     (rule_expression data_rule < 0 \<or> 7 < rule_expression data_rule)"

text \<open>The bucket of a combining operator: the conditions of the rules that carry it, in the
  order of the rules.\<close>

definition bucket :: "Settings \<Rightarrow> int \<Rightarrow> DataRule list \<Rightarrow> ColumnElement list" where
  "bucket settings operator rules =
     concat (map (\<lambda>data_rule.
        if rule_operator data_rule = operator then
          (case map_of (DATA_PERMISSION_MODELS settings) (rule_model data_rule) of
             None \<Rightarrow> []
           | Some module_path \<Rightarrow>
               (case rule_condition (Column module_path (rule_column data_rule)) data_rule of
                  None \<Rightarrow> []
                | Some condition \<Rightarrow> [condition]))
        else []) rules)"

section \<open>Auxiliary facts\<close>

lemmas example_defs = menu_user_list_def menu_user_add_def role_viewer_def
  role_editor_disabled_def role_scoped_def role_unfiltered_def role_unfiltered_disabled_def
  principal_def
  request_of_def default_settings_def rule_of_def backend_of_def repository_modules_def
  ticket_settings_def ticket_modules_def

lemmas expression_defs = RoleDataRuleExpressionType_eq_def RoleDataRuleExpressionType_ne_def
  RoleDataRuleExpressionType_gt_def RoleDataRuleExpressionType_ge_def
  RoleDataRuleExpressionType_lt_def RoleDataRuleExpressionType_le_def
  RoleDataRuleExpressionType_in_def RoleDataRuleExpressionType_not_in_def

lemmas operator_defs = RoleDataRuleOperatorType_AND_def RoleDataRuleOperatorType_OR_def

subsection \<open>The two tests of \<open>rbac_verify\<close> that do not depend on their input\<close>

lemma role_check_only_empty:
  "list_all (\<lambda>status. role_eq_int status 0) user_roles \<longleftrightarrow> user_roles = []"
  by (cases user_roles) (simp_all add: role_eq_int_def)

lemma method_check_always: "m \<noteq> MethodType_GET \<or> m \<noteq> MethodType_OPTIONS"
  by (auto simp: MethodType_GET_def MethodType_OPTIONS_def)

subsection \<open>Dictionaries filled in a loop\<close>

lemma foldl_update_map_of:
  "map_of (foldl (\<lambda>d x. AList.update (key x) x d) d xs) =
     map_of d ++ map_of (rev (map (\<lambda>x. (key x, x)) xs))"
proof (induction xs arbitrary: d)
  case Nil
  then show ?case by simp
next
  case (Cons x xs)
  show ?case
    by (simp add: Cons.IH update_conv' map_add_upd_left fun_eq_iff map_add_def
        split: option.splits)
qed

lemma foldl_update_distinct:
  "distinct (map fst d) \<Longrightarrow>
   distinct (map fst (foldl (\<lambda>d x. AList.update (key x) x d) d xs))"
  by (induction xs arbitrary: d) (simp_all add: distinct_update)

lemma foldl_update_dom:
  "fst ` set (foldl (\<lambda>d x. AList.update (key x) x d) d xs) = fst ` set d \<union> key ` set xs"
  by (induction xs arbitrary: d) (auto simp: dom_update)

lemma update_keyed:
  "\<forall>p\<in>set d. fst p = key (snd p) \<Longrightarrow>
   \<forall>p\<in>set (AList.update (key x) x d). fst p = key (snd p)"
  by (induction d) auto

lemma foldl_update_keyed:
  "\<forall>p\<in>set d. fst p = key (snd p) \<Longrightarrow>
   \<forall>p\<in>set (foldl (\<lambda>d x. AList.update (key x) x d) d xs). fst p = key (snd p)"
proof (induction xs arbitrary: d)
  case Nil
  then show ?case by simp
next
  case (Cons x xs)
  from Cons.prems have "\<forall>p\<in>set (AList.update (key x) x d). fst p = key (snd p)"
    by (rule update_keyed)
  then show ?case by (simp add: Cons.IH)
qed

lemma foldl_nested_concat:
  "foldl (\<lambda>d r. foldl f d (g r)) d rs = foldl f d (concat (map g rs))"
  by (induction rs arbitrary: d) simp_all

lemma foldl_update_values:
  assumes "\<forall>x\<in>set xs. \<forall>y\<in>set xs. key x = key y \<longrightarrow> x = y"
  shows "snd ` set (foldl (\<lambda>d x. AList.update (key x) x d) [] xs) = set xs"
proof -
  let ?al = "foldl (\<lambda>d x. AList.update (key x) x d) [] xs"
  let ?kv = "rev (map (\<lambda>x. (key x, x)) xs)"
  have d: "distinct (map fst ?al)" by (rule foldl_update_distinct) simp
  have m: "map_of ?al = map_of ?kv"
    by (simp add: foldl_update_map_of)
  have "snd ` set ?al = ran (map_of ?al)" using d by (simp add: ran_distinct)
  also have "\<dots> = set xs"
  proof (intro set_eqI iffI)
    fix v assume "v \<in> ran (map_of ?al)"
    then obtain k where "map_of ?kv k = Some v"
      unfolding m ran_def by blast
    then have "(k, v) \<in> set ?kv" by (rule map_of_SomeD)
    then show "v \<in> set xs" by auto
  next
    fix v assume v: "v \<in> set xs"
    then have "key v \<in> fst ` set ?kv" by force
    then obtain w where w: "map_of ?kv (key v) = Some w"
      by (meson map_of_eq_None_iff not_Some_eq)
    then have "(key v, w) \<in> set ?kv" by (rule map_of_SomeD)
    then have "w \<in> set xs" "key w = key v" by auto
    with assms v have "w = v" by metis
    with w show "v \<in> ran (map_of ?al)" unfolding m ran_def by blast
  qed
  finally show ?thesis .
qed

lemma unique_menus_flat:
  "unique_menus user_roles =
     foldl (\<lambda>d menu. AList.update (menu_id menu) menu d) [] (concat (map menus user_roles))"
  unfolding unique_menus_def by (rule foldl_nested_concat)

lemma allow_perms_set:
  assumes "\<forall>x\<in>set (concat (map menus user_roles)). \<forall>y\<in>set (concat (map menus user_roles)).
             menu_id x = menu_id y \<longrightarrow> x = y"
  shows "set (allow_perms user_roles) =
           (\<Union>role\<in>set user_roles. \<Union>menu\<in>set (menus role). set (menu_perms menu))"
proof -
  have "set (allow_perms user_roles) =
          (\<Union>menu\<in>snd ` set (unique_menus user_roles). set (menu_perms menu))"
    unfolding allow_perms_def by auto
  also have "snd ` set (unique_menus user_roles) = set (concat (map menus user_roles))"
    unfolding unique_menus_flat using assms by (rule foldl_update_values)
  finally show ?thesis by auto
qed

subsection \<open>The scope ids of a principal\<close>

lemma status_truthy_enable: "status_truthy st \<longleftrightarrow> st = enable"
  by (cases st) simp_all

lemma foldl_insert_set:
  "set (foldl (\<lambda>ids scope. if status_truthy (scope_status scope)
                             then List.insert (scope_id scope) ids else ids) ids xs)
   = set ids \<union> scope_id ` {s \<in> set xs. scope_status s = enable}"
  by (induction xs arbitrary: ids) (auto simp: status_truthy_enable)

lemma data_scope_ids_set:
  "set (data_scope_ids u) =
     (\<Union>role\<in>set (roles u). scope_id ` {s \<in> set (scopes role). scope_status s = enable})"
  unfolding data_scope_ids_def foldl_nested_concat foldl_insert_set by auto

subsection \<open>The loop over the rules\<close>

lemma rule_condition_None:
  "rule_condition column_obj data_rule = None \<longleftrightarrow> unknown_expression data_rule"
  unfolding rule_condition_def unknown_expression_def Let_def expression_defs
  by auto

lemma where_lists_resolved:
  "list_all (rule_resolves settings importer) rules \<Longrightarrow>
   where_lists settings importer (ands, ors) rules =
     Inr (ands @ bucket settings RoleDataRuleOperatorType_AND rules,
          ors @ bucket settings RoleDataRuleOperatorType_OR rules)"
proof (induction rules arbitrary: ands ors)
  case Nil
  then show ?case by (simp add: bucket_def)
next
  case (Cons r rules)
  from Cons.prems have r: "rule_resolves settings importer r"
    and rest: "list_all (rule_resolves settings importer) rules" by simp_all
  from r obtain module_path keys where
    m: "map_of (DATA_PERMISSION_MODELS settings) (rule_model r) = Some module_path"
    and k: "dynamic_import_data_model importer module_path = Inr keys"
    and c: "rule_column r \<in> set (filter (\<lambda>key. key \<notin> set (DATA_PERMISSION_COLUMN_EXCLUDE settings)) keys)"
    unfolding rule_resolves_def by (auto split: option.splits sum.splits)
  show ?case
  proof (cases "rule_condition (Column module_path (rule_column r)) r")
    case None
    then show ?thesis
      using m k c Cons.IH [OF rest, of ands ors] by (simp add: bucket_def)
  next
    case (Some condition)
    show ?thesis
      using m k c Some
        Cons.IH [OF rest, of "fst (add_condition (rule_operator r) condition (ands, ors))"
                             "snd (add_condition (rule_operator r) condition (ands, ors))"]
      by (simp add: bucket_def add_condition_def operator_defs)
  qed
qed

lemma where_lists_Inr_resolves:
  "where_lists settings importer buckets rules = Inr result \<Longrightarrow>
   list_all (rule_resolves settings importer) rules"
proof (induction rules arbitrary: buckets)
  case Nil
  then show ?case by simp
next
  case (Cons r rules)
  from Cons.prems have r: "rule_resolves settings importer r"
    by (auto simp: rule_resolves_def Let_def split: option.splits sum.splits if_splits)
  from Cons.prems obtain buckets' where
    "where_lists settings importer buckets' rules = Inr result"
    by (auto simp: Let_def split: option.splits sum.splits if_splits)
  then have "list_all (rule_resolves settings importer) rules" by (rule Cons.IH)
  with r show ?case by simp
qed

lemma where_lists_NotFound:
  assumes "models_import settings importer"
      and "\<not> list_all (rule_resolves settings importer) rules"
  shows "\<exists>msg. where_lists settings importer buckets rules = Inl (NotFoundError msg)"
  using assms(2)
proof (induction rules arbitrary: buckets)
  case Nil
  then show ?case by simp
next
  case (Cons r rules)
  show ?case
  proof (cases "map_of (DATA_PERMISSION_MODELS settings) (rule_model r)")
    case None
    then show ?thesis by simp
  next
    case (Some module_path)
    then have "(rule_model r, module_path) \<in> set (DATA_PERMISSION_MODELS settings)"
      by (rule map_of_SomeD)
    with assms(1) have "\<not> isl (dynamic_import_data_model importer module_path)"
      unfolding models_import_def list_all_iff by force
    then obtain keys where k: "dynamic_import_data_model importer module_path = Inr keys"
      by (cases "dynamic_import_data_model importer module_path") simp_all
    show ?thesis
    proof (cases "rule_resolves settings importer r")
      case True
      with Cons.prems have "\<not> list_all (rule_resolves settings importer) rules" by simp
      from Cons.IH [OF this] Some k True show ?thesis
        by (auto simp: rule_resolves_def Let_def split: option.splits)
    next
      case False
      with Some k show ?thesis by (simp add: rule_resolves_def)
    qed
  qed
qed

lemma where_lists_skip:
  "where_lists settings importer buckets rules =
   where_lists settings importer buckets
     (filter (\<lambda>r. \<not> (rule_resolves settings importer r \<and> unknown_expression r)) rules)"
proof (induction rules arbitrary: buckets)
  case Nil
  then show ?case by simp
next
  case (Cons r rules)
  show ?case
  proof (cases "rule_resolves settings importer r \<and> unknown_expression r")
    case True
    then obtain module_path keys where
      m: "map_of (DATA_PERMISSION_MODELS settings) (rule_model r) = Some module_path"
      and k: "dynamic_import_data_model importer module_path = Inr keys"
      and c: "rule_column r \<in> set (filter (\<lambda>key. key \<notin> set (DATA_PERMISSION_COLUMN_EXCLUDE settings)) keys)"
      unfolding rule_resolves_def by (auto split: option.splits sum.splits)
    from True have "rule_condition (Column module_path (rule_column r)) r = None"
      by (simp add: rule_condition_None)
    with m k c True Cons.IH show ?thesis by simp
  next
    case False
    then show ?thesis
      using Cons.IH by (auto simp: Let_def split: option.splits sum.splits)
  qed
qed


lemma where_lists_unresolvable_head:
  assumes "rule_unresolvable settings importer data_rule"
  shows "\<exists>msg. where_lists settings importer buckets (data_rule # rest) = Inl (NotFoundError msg)"
  using assms unfolding rule_unresolvable_def
  by (auto simp: Let_def split: option.splits sum.splits)

subsection \<open>The dictionary of rules and the final combination\<close>

lemma unique_data_rules_invariant:
  assumes "unique_data_rules gwr d ids = Inr unique"
      and "distinct (map fst d)"
      and "\<forall>p\<in>set d. fst p = rule_id (snd p)"
  shows "distinct (map fst unique) \<and> (\<forall>p\<in>set unique. fst p = rule_id (snd p))"
  using assms
proof (induction ids arbitrary: d)
  case Nil
  then show ?case by simp
next
  case (Cons i ids)
  from Cons.prems(1) obtain rules where g: "gwr i = Some rules"
    and u: "unique_data_rules gwr (foldl (\<lambda>d rule. AList.update (rule_id rule) rule d) d rules) ids = Inr unique"
    by (auto split: option.splits)
  show ?case
    by (rule Cons.IH [OF u foldl_update_distinct [OF Cons.prems(2)] foldl_update_keyed [OF Cons.prems(3)]])
qed

lemma unique_data_rules_distinct:
  assumes "unique_data_rules gwr [] ids = Inr unique"
  shows "distinct (map rule_id (map snd unique))"
proof -
  from unique_data_rules_invariant [OF assms]
  have d: "distinct (map fst unique)" and k: "\<forall>p\<in>set unique. fst p = rule_id (snd p)" by simp_all
  from k have eq: "map rule_id (map snd unique) = map fst unique" by (induction unique) auto
  show ?thesis unfolding eq by (rule d)
qed

lemma unique_data_rules_covers:
  assumes "unique_data_rules gwr d ids = Inr unique"
  shows "fst ` set unique =
           fst ` set d \<union> (\<Union>i\<in>set ids. case gwr i of None \<Rightarrow> {} | Some rules \<Rightarrow> rule_id ` set rules)"
  using assms
proof (induction ids arbitrary: d)
  case Nil
  then show ?case by simp
next
  case (Cons i ids)
  from Cons.prems(1) obtain rules where g: "gwr i = Some rules"
    and u: "unique_data_rules gwr (foldl (\<lambda>d rule. AList.update (rule_id rule) rule d) d rules) ids = Inr unique"
    by (auto split: option.splits)
  from Cons.IH [OF u] g show ?case by (auto simp: foldl_update_dom)
qed

lemma holds_combine_where:
  "holds row (combine_where ands ors) \<longleftrightarrow>
     (ands = [] \<and> ors = []) \<or> (ands \<noteq> [] \<and> list_all (holds row) ands) \<or> list_ex (holds row) ors"
  unfolding combine_where_def Let_def by (cases ands; cases ors) auto

lemma combine_where_cases:
  "combine_where ands ors =
     (if ands = [] \<and> ors = [] then Or [TrueLiteral]
      else if ors = [] then Or [And ands]
      else if ands = [] then Or [Or ors]
      else Or [And ands, Or ors])"
  unfolding combine_where_def Let_def by simp

section \<open>Properties of \<open>rbac_verify\<close>\<close>

text \<open>
  C2. The staff check. The claim says a GET request of a non-staff principal passes it.
  The test \<open>method != GET or method != OPTIONS\<close> holds for every method, so the code
  denies every non-staff principal that passed the role and menu checks, with the
  management-operations message, whatever the request method.
\<close>

theorem staff_check_every_method:
  assumes "url_path request \<notin> set (TOKEN_REQUEST_PATH_EXCLUDE settings)"
      and "\<not> list_ex (\<lambda>pattern. pattern (url_path request))
                 (TOKEN_REQUEST_PATH_EXCLUDE_PATTERN settings)"
      and "auth_scopes request \<noteq> []"
      and "\<not> is_superuser (user request)"
      and "roles (user request) \<noteq> []"
      and "list_ex (\<lambda>role. length (menus role) > 0) (roles (user request))"
      and "\<not> is_staff (user request)"
  shows "rbac_verify settings casbin request = Inl (AuthorizationError
            ''The user has been banned from background management operations, please contact the system administrator'')"
  unfolding rbac_verify_def Let_def
  using assms method_check_always [of "request_method request"]
  by (simp add: role_check_only_empty)

text \<open>At a GET request of a non-staff principal with an enabled role that has a menu.\<close>

theorem staff_check_every_method_witness:
  "rbac_verify default_settings None
     (request_of (principal False False [role_viewer]) ''GET'' None)
   = Inl (AuthorizationError
            ''The user has been banned from background management operations, please contact the system administrator'')"
  by (rule staff_check_every_method) (simp_all add: example_defs)

text \<open>
  C6. The role check. The claim says a principal whose roles are all disabled is denied
  with the no-role message. The test compares the role objects themselves with \<open>0\<close>, so
  the code denies only a principal without roles: a staff principal whose roles are all
  disabled, one of them with a menu, is allowed when the operation declares no permission
  code.
\<close>

theorem role_check_passes_disabled:
  assumes "url_path request \<notin> set (TOKEN_REQUEST_PATH_EXCLUDE settings)"
      and "\<not> list_ex (\<lambda>pattern. pattern (url_path request))
                 (TOKEN_REQUEST_PATH_EXCLUDE_PATTERN settings)"
      and "auth_scopes request \<noteq> []"
      and "\<not> is_superuser (user request)"
      and "roles (user request) \<noteq> []"
      and "list_all (\<lambda>role. role_status role = disable) (roles (user request))"
      and "list_ex (\<lambda>role. length (menus role) > 0) (roles (user request))"
      and "is_staff (user request)"
      and "RBAC_ROLE_MENU_MODE settings"
      and "state_permission request = None"
  shows "rbac_verify settings casbin request = Inr ()"
  unfolding rbac_verify_def Let_def
  using assms by (simp add: role_check_only_empty)

text \<open>At a staff principal whose only role is disabled.\<close>

theorem role_check_passes_disabled_witness:
  "rbac_verify default_settings None
     (request_of (principal False True [role_editor_disabled]) ''GET'' None) = Inr ()"
  by (rule role_check_passes_disabled) (simp_all add: example_defs)

text \<open>
  C7. The permission code. The claim takes the union of the codes over the enabled roles.
  The code takes it over every role: a principal with an enabled role and a disabled
  role is allowed an operation whose code only a menu of the disabled role carries.
\<close>

theorem menu_code_counterexample:
  "rbac_verify default_settings None
     (request_of (principal False True [role_viewer, role_editor_disabled]) ''POST''
        (Some ''sys:user:add'')) = Inr ()
   \<and> ''sys:user:add'' \<notin>
       (\<Union>role\<in>set (filter (\<lambda>role. role_status role = enable)
                         [role_viewer, role_editor_disabled]).
          \<Union>menu\<in>set (menus role). set (menu_perms menu))"
  by (simp add: example_defs rbac_verify_def role_eq_int_def allow_perms_def unique_menus_def
      menu_perms_def MethodType_GET_def MethodType_OPTIONS_def)

text \<open>
  C7, as amended. For a staff principal with at least one enabled role, in menu mode, with
  a required code that is not in the bypass list: the request is allowed exactly when the
  code is in the union, over all roles of the principal whatever their status, of the
  codes of the enabled menus, each non-empty code string split at the commas; otherwise it
  is denied with the default message. Menus are identified by their id.
\<close>

theorem menu_code_all_roles:
  assumes "url_path request \<notin> set (TOKEN_REQUEST_PATH_EXCLUDE settings)"
      and "\<not> list_ex (\<lambda>pattern. pattern (url_path request))
                 (TOKEN_REQUEST_PATH_EXCLUDE_PATTERN settings)"
      and "auth_scopes request \<noteq> []"
      and "\<not> is_superuser (user request)"
      and "list_ex (\<lambda>role. role_status role = enable) (roles (user request))"
      and "list_ex (\<lambda>role. length (menus role) > 0) (roles (user request))"
      and "is_staff (user request)"
      and "RBAC_ROLE_MENU_MODE settings"
      and "state_permission request = Some code"
      and "code \<noteq> []"
      and "code \<notin> set (RBAC_ROLE_MENU_EXCLUDE settings)"
      and "\<forall>x\<in>set (concat (map menus (roles (user request)))).
           \<forall>y\<in>set (concat (map menus (roles (user request)))).
             menu_id x = menu_id y \<longrightarrow> x = y"
  shows "rbac_verify settings casbin request =
           (if code \<in> (\<Union>role\<in>set (roles (user request)).
                          \<Union>menu\<in>set (menus role). set (menu_perms menu))
            then Inr () else Inl (AuthorizationError ''Permission Denied''))"
proof -
  have ne: "roles (user request) \<noteq> []" using assms(5) by auto
  show ?thesis
    unfolding rbac_verify_def Let_def allow_perms_set [OF assms(12)]
    using assms(1-11) ne by (simp add: role_check_only_empty)
qed

text \<open>At the principal with an enabled and a disabled role: a code of the disabled role
  is allowed, a code of no menu is denied.\<close>

theorem menu_code_all_roles_witness:
  "rbac_verify default_settings None
     (request_of (principal False True [role_viewer, role_editor_disabled]) ''POST''
        (Some ''sys:user:edit'')) = Inr ()
   \<and> rbac_verify default_settings None
     (request_of (principal False True [role_viewer, role_editor_disabled]) ''POST''
        (Some ''sys:user:del'')) = Inl (AuthorizationError ''Permission Denied'')"
proof -
  let ?u = "principal False True [role_viewer, role_editor_disabled]"
  have c: "\<forall>x\<in>set (concat (map menus (roles (user (request_of ?u ''POST'' p))))).
           \<forall>y\<in>set (concat (map menus (roles (user (request_of ?u ''POST'' p))))).
             menu_id x = menu_id y \<longrightarrow> x = y" for p
    by (simp add: example_defs)
  have a: "rbac_verify default_settings None
             (request_of ?u ''POST'' (Some ''sys:user:edit'')) = Inr ()"
    by (subst menu_code_all_roles
          [where code = "''sys:user:edit''", OF _ _ _ _ _ _ _ _ _ _ _ c])
       (simp_all add: example_defs menu_perms_def)
  have b: "rbac_verify default_settings None
             (request_of ?u ''POST'' (Some ''sys:user:del''))
           = Inl (AuthorizationError ''Permission Denied'')"
    by (subst menu_code_all_roles
          [where code = "''sys:user:del''", OF _ _ _ _ _ _ _ _ _ _ _ c])
       (simp_all add: example_defs menu_perms_def)
  from a b show ?thesis by simp
qed

text \<open>
  C9. A superuser. For every authenticated request of a principal with
  \<open>is_superuser = true\<close>, \<open>rbac_verify\<close> allows, whatever the roles, the menus, the staff
  flag, the request method, the permission code and the settings, and
  \<open>filter_data_permission\<close> returns \<open>or_(1 == 1)\<close>, which holds of every row.
\<close>

theorem superuser_unrestricted:
  assumes "is_superuser (user request)"
      and "auth_scopes request \<noteq> []"
  shows "rbac_verify settings casbin request = Inr ()
         \<and> filter_data_permission settings backend request = Inr (Or [TrueLiteral])
         \<and> holds row (Or [TrueLiteral])"
  unfolding rbac_verify_def filter_data_permission_def Let_def using assms by simp

text \<open>At a superuser without roles and without the staff flag, deleting a user.\<close>

theorem superuser_unrestricted_witness:
  "rbac_verify default_settings None
     (request_of (principal True False []) ''DELETE'' (Some ''sys:user:del'')) = Inr ()
   \<and> filter_data_permission default_settings
       (backend_of [(1, [rule_of 1 ''department'' ''del_flag'' 0 0 ''0''])] repository_modules)
       (request_of (principal True False []) ''DELETE'' (Some ''sys:user:del''))
     = Inr (Or [TrueLiteral])"
  using superuser_unrestricted [of
      "request_of (principal True False []) ''DELETE'' (Some ''sys:user:del'')"
      default_settings None
      "backend_of [(1, [rule_of 1 ''department'' ''del_flag'' 0 0 ''0''])] repository_modules"]
  by (simp add: example_defs)

section \<open>Properties of \<open>filter_data_permission\<close>\<close>

text \<open>
  C4. The escape hatch. For every principal that is not a superuser and holds a role with
  \<open>is_filter_scopes = false\<close>, the function returns \<open>or_(1 == 1)\<close>, which holds of every
  row, whatever the other roles, their scopes and the rules of those scopes.
\<close>

theorem unfiltered_role_grants_all:
  assumes "\<not> is_superuser (user request)"
      and "list_ex (\<lambda>role. \<not> is_filter_scopes role) (roles (user request))"
  shows "filter_data_permission settings backend request = Inr (Or [TrueLiteral])
         \<and> holds row (Or [TrueLiteral])"
  unfolding filter_data_permission_def using assms by simp

text \<open>At a principal whose other role holds a scope with a rule on an excluded column.\<close>

theorem unfiltered_role_grants_all_witness:
  "filter_data_permission default_settings
     (backend_of [(1, [rule_of 1 ''department'' ''del_flag'' 0 0 ''0''])] repository_modules)
     (request_of (principal False True [role_scoped 1 [1], role_unfiltered]) ''GET'' None)
   = Inr (Or [TrueLiteral])"
  using unfiltered_role_grants_all [of
      "request_of (principal False True [role_scoped 1 [1], role_unfiltered]) ''GET'' None"
      default_settings
      "backend_of [(1, [rule_of 1 ''department'' ''del_flag'' 0 0 ''0''])] repository_modules"]
  by (simp add: example_defs)

text \<open>
  C10. The escape hatch does not look at the status of the role: a disabled role with
  \<open>is_filter_scopes = false\<close> makes the function return \<open>or_(1 == 1)\<close>. The scope ids
  collected afterwards are those of the enabled scopes, of every role.
\<close>

theorem escape_hatch_ignores_role_status:
  assumes "\<not> is_superuser (user request)"
      and "role \<in> set (roles (user request))"
      and "role_status role = disable"
      and "\<not> is_filter_scopes role"
  shows "filter_data_permission settings backend request = Inr (Or [TrueLiteral])
         \<and> set (data_scope_ids (user request)) =
             (\<Union>role\<in>set (roles (user request)).
                scope_id ` {scope \<in> set (scopes role). scope_status scope = enable})"
proof -
  from assms(2,4) have "list_ex (\<lambda>role. \<not> is_filter_scopes role) (roles (user request))"
    unfolding list_ex_iff by blast
  with assms(1) have "filter_data_permission settings backend request = Inr (Or [TrueLiteral])"
    unfolding filter_data_permission_def by simp
  then show ?thesis by (simp add: data_scope_ids_set)
qed

text \<open>At a principal with a scoped role and a disabled role that does not filter.\<close>

theorem escape_hatch_ignores_role_status_witness:
  "filter_data_permission default_settings
     (backend_of [(1, [rule_of 1 ''department'' ''status'' 0 0 ''1''])] repository_modules)
     (request_of (principal False True [role_scoped 1 [1], role_unfiltered_disabled])
        ''GET'' None)
   = Inr (Or [TrueLiteral])
   \<and> set (data_scope_ids (user
        (request_of (principal False True [role_scoped 1 [1], role_unfiltered_disabled])
           ''GET'' None))) =
       (\<Union>role\<in>set (roles (user
           (request_of (principal False True [role_scoped 1 [1], role_unfiltered_disabled])
              ''GET'' None))).
          scope_id ` {scope \<in> set (scopes role). scope_status scope = enable})"
  by (rule escape_hatch_ignores_role_status [where role = role_unfiltered_disabled])
     (simp_all add: example_defs)

text \<open>The scope ids of a principal whose disabled role holds a disabled and an enabled
  scope.\<close>

lemma data_scope_ids_example:
  "data_scope_ids (principal False True
     [role_scoped 1 [1],
      role_unfiltered_disabled\<lparr> scopes := [\<lparr> scope_id = 2, scope_status = disable \<rparr>,
                                           \<lparr> scope_id = 3, scope_status = enable \<rparr>] \<rparr>])
   = [3, 1]"
  by (simp add: example_defs data_scope_ids_def)

text \<open>
  C5. The combination. When every rule of the de-duplicated rule list resolves, the result
  is \<open>or_\<close> of \<open>and_\<close> of the AND-bucket and \<open>or_\<close> of the OR-bucket, an empty bucket left
  out and \<open>or_(1 == 1)\<close> when both are empty; on a row it holds exactly when both buckets
  are empty, or the AND-bucket is not empty and all its conditions hold, or some condition
  of the OR-bucket holds. The rule list has one entry for each rule id that some collected
  scope contains.
\<close>

theorem compile_combines:
  assumes "\<not> is_superuser (user request)"
      and "\<not> list_ex (\<lambda>role. \<not> is_filter_scopes role) (roles (user request))"
      and "set_to_list backend (data_scope_ids (user request)) = ids"
      and "ids \<noteq> []"
      and "unique_data_rules (get_with_relation backend) [] ids = Inr unique"
      and "list_all (rule_resolves settings (import_module backend)) (map snd unique)"
      and "ands = bucket settings RoleDataRuleOperatorType_AND (map snd unique)"
      and "ors = bucket settings RoleDataRuleOperatorType_OR (map snd unique)"
  shows "filter_data_permission settings backend request =
           Inr (if ands = [] \<and> ors = [] then Or [TrueLiteral]
                else if ors = [] then Or [And ands]
                else if ands = [] then Or [Or ors]
                else Or [And ands, Or ors])
         \<and> (\<exists>p. filter_data_permission settings backend request = Inr p \<and>
                (holds row p \<longleftrightarrow>
                   (ands = [] \<and> ors = []) \<or> (ands \<noteq> [] \<and> list_all (holds row) ands)
                   \<or> list_ex (holds row) ors))
         \<and> distinct (map rule_id (map snd unique))
         \<and> rule_id ` set (map snd unique) =
             (\<Union>i\<in>set ids. case get_with_relation backend i of
                               None \<Rightarrow> {} | Some rules \<Rightarrow> rule_id ` set rules)"
proof -
  have w: "where_lists settings (import_module backend) ([], []) (map snd unique) = Inr (ands, ors)"
    using where_lists_resolved [OF assms(6), of "[]" "[]"] assms(7,8) by simp
  have r: "filter_data_permission settings backend request = Inr (combine_where ands ors)"
    unfolding filter_data_permission_def Let_def using assms(1-5) w by simp
  have k: "\<forall>p\<in>set unique. fst p = rule_id (snd p)"
    using unique_data_rules_invariant [OF assms(5)] by simp
  then have "rule_id ` set (map snd unique) = fst ` set unique" by force
  also have "\<dots> = (\<Union>i\<in>set ids. case get_with_relation backend i of
                               None \<Rightarrow> {} | Some rules \<Rightarrow> rule_id ` set rules)"
    using unique_data_rules_covers [OF assms(5)] by simp
  finally have c: "rule_id ` set (map snd unique) =
             (\<Union>i\<in>set ids. case get_with_relation backend i of
                               None \<Rightarrow> {} | Some rules \<Rightarrow> rule_id ` set rules)" .
  from r have 1: "filter_data_permission settings backend request =
           Inr (if ands = [] \<and> ors = [] then Or [TrueLiteral]
                else if ors = [] then Or [And ands]
                else if ands = [] then Or [Or ors]
                else Or [And ands, Or ors])"
    by (simp only: combine_where_cases)
  from r have 2: "\<exists>p. filter_data_permission settings backend request = Inr p \<and>
                (holds row p \<longleftrightarrow>
                   (ands = [] \<and> ors = []) \<or> (ands \<noteq> [] \<and> list_all (holds row) ands)
                   \<or> list_ex (holds row) ors)"
    using holds_combine_where [of row ands ors] by simp
  from 1 2 unique_data_rules_distinct [OF assms(5)] c show ?thesis by blast
qed

text \<open>At a principal with two roles, one with a scope of the AND-rule \<open>dept = 5\<close>, the
  other with a scope of the OR-rule \<open>owner = 7\<close>.\<close>

theorem compile_combines_witness:
  "filter_data_permission ticket_settings
     (backend_of [(1, [rule_of 1 ''ticket'' ''dept'' 0 0 ''5'']),
                  (2, [rule_of 2 ''ticket'' ''owner'' 1 0 ''7''])] ticket_modules)
     (request_of (principal False True [role_scoped 1 [1], role_scoped 2 [2]]) ''GET'' None)
   = Inr (Or [And [Compare Eq (Column ''backend.app.desk.model.Ticket'' ''dept'') ''5''],
              Or [Compare Eq (Column ''backend.app.desk.model.Ticket'' ''owner'') ''7'']])"
  using compile_combines [of
      "request_of (principal False True [role_scoped 1 [1], role_scoped 2 [2]]) ''GET'' None"
      "backend_of [(1, [rule_of 1 ''ticket'' ''dept'' 0 0 ''5'']),
                   (2, [rule_of 2 ''ticket'' ''owner'' 1 0 ''7''])] ticket_modules"
      "[1, 2]"
      "[(1, rule_of 1 ''ticket'' ''dept'' 0 0 ''5''), (2, rule_of 2 ''ticket'' ''owner'' 1 0 ''7'')]"
      ticket_settings
      "[Compare Eq (Column ''backend.app.desk.model.Ticket'' ''dept'') ''5'']"
      "[Compare Eq (Column ''backend.app.desk.model.Ticket'' ''owner'') ''7'']"
      "\<lambda>e. False"]
  by (simp add: example_defs data_scope_ids_def rule_resolves_def bucket_def
      dynamic_import_data_model_def rule_condition_def expression_defs operator_defs)

text \<open>The same result when the second scope contains the first rule as well.\<close>

lemma compile_shared_rule_once:
  "filter_data_permission ticket_settings
     (backend_of [(1, [rule_of 1 ''ticket'' ''dept'' 0 0 ''5'']),
                  (2, [rule_of 2 ''ticket'' ''owner'' 1 0 ''7'',
                       rule_of 1 ''ticket'' ''dept'' 0 0 ''5''])] ticket_modules)
     (request_of (principal False True [role_scoped 1 [1], role_scoped 2 [2]]) ''GET'' None)
   = Inr (Or [And [Compare Eq (Column ''backend.app.desk.model.Ticket'' ''dept'') ''5''],
              Or [Compare Eq (Column ''backend.app.desk.model.Ticket'' ''owner'') ''7'']])"
  by (simp add: example_defs filter_data_permission_def data_scope_ids_def
      dynamic_import_data_model_def rule_condition_def expression_defs operator_defs
      add_condition_def combine_where_def)

text \<open>
  C8. Unresolvable rules. When the rule list contains a rule whose entity is not in the
  allow-list, or whose column is not among the columns of its entity outside the exclusion
  list, the function raises: it never returns a predicate, and when every class of the
  allow-list is imported the exception is \<open>NotFoundError\<close>.
\<close>

theorem unresolvable_rule_fails:
  assumes "\<not> is_superuser (user request)"
      and "\<not> list_ex (\<lambda>role. \<not> is_filter_scopes role) (roles (user request))"
      and "set_to_list backend (data_scope_ids (user request)) = ids"
      and "ids \<noteq> []"
      and "unique_data_rules (get_with_relation backend) [] ids = Inr unique"
      and "data_rule \<in> set (map snd unique)"
      and "rule_unresolvable settings (import_module backend) data_rule"
  shows "(\<exists>e. filter_data_permission settings backend request = Inl e)
         \<and> (models_import settings (import_module backend) \<longrightarrow>
              (\<exists>msg. filter_data_permission settings backend request = Inl (NotFoundError msg)))"
proof -
  let ?w = "where_lists settings (import_module backend) ([], []) (map snd unique)"
  have f: "filter_data_permission settings backend request =
             (case ?w of Inl e \<Rightarrow> Inl e
              | Inr buckets \<Rightarrow> Inr (combine_where (fst buckets) (snd buckets)))"
    unfolding filter_data_permission_def Let_def using assms(1-5) by simp
  from assms(7) have "\<not> rule_resolves settings (import_module backend) data_rule"
    unfolding rule_unresolvable_def rule_resolves_def by (auto split: option.splits sum.splits)
  with assms(6) have n: "\<not> list_all (rule_resolves settings (import_module backend)) (map snd unique)"
    unfolding list_all_iff by blast
  have "\<exists>e. ?w = Inl e"
  proof (cases ?w)
    case (Inl e)
    then show ?thesis by simp
  next
    case (Inr result)
    then have "list_all (rule_resolves settings (import_module backend)) (map snd unique)"
      by (rule where_lists_Inr_resolves)
    with n show ?thesis by simp
  qed
  then have 1: "\<exists>e. filter_data_permission settings backend request = Inl e"
    unfolding f by auto
  have 2: "\<exists>msg. filter_data_permission settings backend request = Inl (NotFoundError msg)"
    if "models_import settings (import_module backend)"
    using where_lists_NotFound [OF that n, of "([], [])"] unfolding f by auto
  from 1 2 show ?thesis by blast
qed

text \<open>At a scope with a good rule and a rule on the soft-delete flag of departments.\<close>

theorem unresolvable_rule_fails_witness:
  "models_import default_settings repository_modules
   \<and> rule_unresolvable default_settings repository_modules
       (rule_of 1 ''department'' ''del_flag'' 0 0 ''0'')
   \<and> (\<exists>msg. filter_data_permission default_settings
        (backend_of [(1, [rule_of 2 ''department'' ''status'' 0 0 ''1'',
                          rule_of 1 ''department'' ''del_flag'' 0 0 ''0''])] repository_modules)
        (request_of (principal False True [role_scoped 1 [1]]) ''GET'' None)
      = Inl (NotFoundError msg))"
  using unresolvable_rule_fails [of
      "request_of (principal False True [role_scoped 1 [1]]) ''GET'' None"
      "backend_of [(1, [rule_of 2 ''department'' ''status'' 0 0 ''1'',
                        rule_of 1 ''department'' ''del_flag'' 0 0 ''0''])] repository_modules"
      "[1]"
      "[(2, rule_of 2 ''department'' ''status'' 0 0 ''1''),
        (1, rule_of 1 ''department'' ''del_flag'' 0 0 ''0'')]"
      "rule_of 1 ''department'' ''del_flag'' 0 0 ''0''"
      default_settings]
  by (simp add: example_defs data_scope_ids_def rule_unresolvable_def models_import_def
      dynamic_import_data_model_def)

text \<open>The two messages.\<close>

lemma excluded_column_message:
  "filter_data_permission default_settings
     (backend_of [(1, [rule_of 1 ''department'' ''del_flag'' 0 0 ''0''])] repository_modules)
     (request_of (principal False True [role_scoped 1 [1]]) ''GET'' None)
   = Inl (NotFoundError ''Data rule model column does not exist'')"
  by (simp add: example_defs filter_data_permission_def data_scope_ids_def
      dynamic_import_data_model_def)

lemma unknown_entity_message:
  "filter_data_permission default_settings
     (backend_of [(1, [rule_of 1 ''user'' ''status'' 0 0 ''1''])] repository_modules)
     (request_of (principal False True [role_scoped 1 [1]]) ''GET'' None)
   = Inl (NotFoundError ''Data rule model does not exist'')"
  by (simp add: example_defs filter_data_permission_def data_scope_ids_def
      dynamic_import_data_model_def)

text \<open>
  C3. Unknown comparison operators. The claim says a rule whose \<open>expression\<close> is none of
  the eight known values makes the function raise \<open>NotFoundError\<close>. The code leaves
  \<open>condition\<close> at \<open>None\<close> and skips the rule: with that rule alone the result is
  \<open>or_(1 == 1)\<close>.
\<close>

theorem unknown_expression_counterexample:
  "unknown_expression (rule_of 1 ''department'' ''name'' 0 8 ''hq'')
   \<and> filter_data_permission default_settings
       (backend_of [(1, [rule_of 1 ''department'' ''name'' 0 8 ''hq''])] repository_modules)
       (request_of (principal False True [role_scoped 1 [1]]) ''GET'' None)
     = Inr (Or [TrueLiteral])"
  by (simp add: example_defs filter_data_permission_def data_scope_ids_def
      dynamic_import_data_model_def unknown_expression_def rule_condition_def
      expression_defs combine_where_def)

text \<open>
  C3, as amended. A rule that resolves and whose \<open>expression\<close> is unknown is dropped: the
  result is the one computed from the remaining rules of the list.
\<close>

theorem unknown_expression_skipped:
  assumes "\<not> is_superuser (user request)"
      and "\<not> list_ex (\<lambda>role. \<not> is_filter_scopes role) (roles (user request))"
      and "set_to_list backend (data_scope_ids (user request)) = ids"
      and "ids \<noteq> []"
      and "unique_data_rules (get_with_relation backend) [] ids = Inr unique"
  shows "filter_data_permission settings backend request =
           (case where_lists settings (import_module backend) ([], [])
                   (filter (\<lambda>data_rule.
                              \<not> (rule_resolves settings (import_module backend) data_rule
                                  \<and> unknown_expression data_rule))
                      (map snd unique)) of
              Inl e \<Rightarrow> Inl e
            | Inr buckets \<Rightarrow> Inr (combine_where (fst buckets) (snd buckets)))"
  unfolding filter_data_permission_def Let_def
  using assms where_lists_skip [of settings "import_module backend" "([], [])" "map snd unique"]
  by simp

text \<open>At a scope with a rule of expression \<open>8\<close> and the rule \<open>status = 1\<close>.\<close>

theorem unknown_expression_skipped_witness:
  "filter_data_permission default_settings
     (backend_of [(1, [rule_of 1 ''department'' ''name'' 0 8 ''hq'',
                       rule_of 2 ''department'' ''status'' 0 0 ''1''])] repository_modules)
     (request_of (principal False True [role_scoped 1 [1]]) ''GET'' None)
   = Inr (Or [And [Compare Eq (Column ''backend.app.admin.model.Dept'' ''status'') ''1'']])"
  using unknown_expression_skipped [of
      "request_of (principal False True [role_scoped 1 [1]]) ''GET'' None"
      "backend_of [(1, [rule_of 1 ''department'' ''name'' 0 8 ''hq'',
                        rule_of 2 ''department'' ''status'' 0 0 ''1''])] repository_modules"
      "[1]"
      "[(1, rule_of 1 ''department'' ''name'' 0 8 ''hq''),
        (2, rule_of 2 ''department'' ''status'' 0 0 ''1'')]"
      default_settings]
  by (simp add: example_defs data_scope_ids_def rule_resolves_def unknown_expression_def
      dynamic_import_data_model_def rule_condition_def expression_defs operator_defs
      add_condition_def combine_where_def)

section \<open>Properties of the mutations\<close>

text \<open>
  C1. Cache invalidation. The claim says deleting a rule, or changing the rules of a scope,
  purges the cached snapshot of every user that reaches the rule or the scope. User 7
  reaches rule 1 through scope 1 and role 1 and has a cached snapshot; after
  \<open>DataRuleService.delete\<close> of rule 1 the snapshot is still cached.
\<close>

theorem rule_delete_purge_counterexample:
  "7 \<in> set (users_of_rule (database example_system) 1)
   \<and> redis example_system 7 = Some ''snapshot of 7''
   \<and> redis (snd (DataRuleService_delete [1] example_system)) 7 = Some ''snapshot of 7''"
  by (simp add: users_of_rule_def users_of_scope_def example_system_def
      DataRuleService_delete_def data_rule_dao_delete_def rule_of_def)

text \<open>
  C1, as amended. \<open>DataRuleService.delete\<close> and
  \<open>DataScopeService.update_data_scope_rule\<close> purge no snapshot: after either of them the
  cache entry of every user, whether the user reaches the rule or the scope or not, is
  what it was before.
\<close>

theorem rule_mutations_keep_cache:
  "redis (snd (DataRuleService_delete pks sys)) = redis sys
   \<and> (case DataScopeService_update_data_scope_rule pk rule_ids sys of
         Inl e \<Rightarrow> True
       | Inr result \<Rightarrow> redis (snd result) = redis sys)"
  by (simp add: DataRuleService_delete_def DataScopeService_update_data_scope_rule_def
      split: prod.splits sum.splits)

text \<open>At user 7, who reaches rule 1, and user 8, who holds no role: both snapshots are
  cached after rule 1 is deleted, and after the rules of scope 1 are replaced.\<close>

theorem rule_mutations_keep_cache_witness:
  "7 \<in> set (users_of_rule (database example_system) 1)
   \<and> 8 \<notin> set (users_of_rule (database example_system) 1)
   \<and> fst (DataRuleService_delete [1] example_system) = 1
   \<and> redis (snd (DataRuleService_delete [1] example_system)) 7 = Some ''snapshot of 7''
   \<and> redis (snd (DataRuleService_delete [1] example_system)) 8 = Some ''snapshot of 8''
   \<and> 7 \<in> set (users_of_scope (database example_system) 1)
   \<and> (\<exists>sys'. DataScopeService_update_data_scope_rule 1 [2] example_system = Inr (1, sys')
              \<and> sys_data_scope_rule (database sys') = [(1, 2)]
              \<and> redis sys' 7 = Some ''snapshot of 7''
              \<and> redis sys' 8 = Some ''snapshot of 8'')"
proof -
  have r: "redis (snd (DataRuleService_delete [1] example_system)) = redis example_system"
    using rule_mutations_keep_cache [of "[1]" example_system 1 "[2]"] by simp
  have u: "DataScopeService_update_data_scope_rule 1 [2] example_system =
             Inr (1, example_system\<lparr> database :=
                       (database example_system)\<lparr> sys_data_scope_rule := [(1, 2)] \<rparr> \<rparr>)"
    by (simp add: DataScopeService_update_data_scope_rule_def data_scope_dao_update_rules_def
        example_system_def rule_of_def)
  have a: "7 \<in> set (users_of_rule (database example_system) 1)"
          "8 \<notin> set (users_of_rule (database example_system) 1)"
    by (simp_all add: users_of_rule_def users_of_scope_def example_system_def)
  have b: "7 \<in> set (users_of_scope (database example_system) 1)"
    by (simp add: users_of_scope_def example_system_def)
  have c: "redis example_system 7 = Some ''snapshot of 7''"
          "redis example_system 8 = Some ''snapshot of 8''"
    by (simp_all add: example_system_def)
  have d: "fst (DataRuleService_delete [1] example_system) = 1"
    by (simp add: DataRuleService_delete_def data_rule_dao_delete_def example_system_def
        rule_of_def)
  from r u a b c d show ?thesis by simp
qed

text \<open>
  The snapshot of a user holds the ids and the status of the scopes of its roles and no
  rule; \<open>filter_data_permission\<close> reads the rules of a scope from the tables at each call.
  With the same snapshot of user 7, the predicate is \<open>status = 1\<close> while rule 1 is stored,
  and \<open>or_(1 == 1)\<close> once it is deleted.
\<close>

lemma snapshot_before_rule_delete:
  "filter_data_permission default_settings
     \<lparr> set_to_list = sort,
       get_with_relation = data_scope_dao_get_with_relation (database example_system),
       import_module = repository_modules \<rparr>
     (request_of (principal False True [role_scoped 1 [1]]) ''GET'' None)
   = Inr (Or [And [Compare Eq (Column ''backend.app.admin.model.Dept'' ''status'') ''1'']])"
  by (simp add: example_defs example_system_def filter_data_permission_def data_scope_ids_def
      data_scope_dao_get_with_relation_def dynamic_import_data_model_def rule_condition_def
      expression_defs operator_defs add_condition_def combine_where_def)

lemma snapshot_after_rule_delete:
  "filter_data_permission default_settings
     \<lparr> set_to_list = sort,
       get_with_relation =
         data_scope_dao_get_with_relation
           (database (snd (DataRuleService_delete [1] example_system))),
       import_module = repository_modules \<rparr>
     (request_of (principal False True [role_scoped 1 [1]]) ''GET'' None)
   = Inr (Or [TrueLiteral])"
  by (simp add: example_defs example_system_def filter_data_permission_def data_scope_ids_def
      data_scope_dao_get_with_relation_def DataRuleService_delete_def
      data_rule_dao_delete_def combine_where_def)

end
